theory Spec2Isabelle
  imports Main
begin

section \<open>The host runtime: strings, standard output, the module search path\<close>

text \<open>
  The repository is three variants of one script (\<^verbatim>\<open>myproject0/myscript.py\<close>,
  \<^verbatim>\<open>myproject2/myscript.py\<close>, \<^verbatim>\<open>myproject6/scripts/myscript.py\<close>) and one class module
  (\<^verbatim>\<open>myproject2/myclass.py\<close>). Each prints the attributes the interpreter gave its module and
  the interpreter's module search path. The scripts differ only in how they import the class.

  A Python \<^verbatim>\<open>str\<close> is modelled as a \<open>string\<close> whose characters are code points below 256.
  The part of the interpreter state the code reads or writes is the list \<^verbatim>\<open>sys.path\<close> and
  what has been written to standard output, kept as the list of the lines printed so far
  (one entry for each call of \<^verbatim>\<open>print\<close>).
\<close>

record pystate =
  sys_path :: "string list"
  stdout :: "string list"

text \<open>\<^verbatim>\<open>print(x)\<close> writes one line; \<^verbatim>\<open>print()\<close> is \<open>py_print []\<close>.\<close>

definition py_print :: "string \<Rightarrow> pystate \<Rightarrow> pystate" where
  "py_print line s = s\<lparr>stdout := stdout s @ [line]\<rparr>"

text \<open>The bytes that reach the output stream: every printed line, each followed by a newline.\<close>

definition stdout_text :: "pystate \<Rightarrow> string" where
  "stdout_text s = concat (map (\<lambda>line. line @ [CHR 0x0A]) (stdout s))"

text \<open>
  The three module attributes the code prints. \<^verbatim>\<open>__name__\<close> and \<^verbatim>\<open>__file__\<close> are strings;
  \<^verbatim>\<open>__package__\<close> is a string or Python's \<^verbatim>\<open>None\<close>.
\<close>

record module_globals =
  dunder_name :: string
  dunder_package :: "string option"
  dunder_file :: string

text \<open>
  An f-string field \<^verbatim>\<open>{x}\<close> inserts \<^verbatim>\<open>str(x)\<close>: a string as it is, \<^verbatim>\<open>None\<close> as the four
  letters \<^verbatim>\<open>None\<close>.
\<close>

fun py_str :: "string option \<Rightarrow> string" where
  "py_str None = ''None''"
| "py_str (Some s) = s"

text \<open>
  \<^verbatim>\<open>{sys.path}\<close> inserts the \<^verbatim>\<open>repr\<close> of a list of strings. \<^verbatim>\<open>repr\<close> of a string quotes it
  with \<^verbatim>\<open>'\<close>, or with \<^verbatim>\<open>"\<close> when the string has a \<^verbatim>\<open>'\<close> and no \<^verbatim>\<open>"\<close>; it escapes the
  quote, the backslash, tab, newline and carriage return, and writes every other
  non-printable character as \<^verbatim>\<open>\xNN\<close>.
\<close>

definition hex_digit :: "nat \<Rightarrow> char" where
  "hex_digit n = ''0123456789abcdef'' ! (n mod 16)"

definition py_isprintable :: "char \<Rightarrow> bool" where
  "py_isprintable c = (let n = (of_char c :: nat) in (32 \<le> n \<and> n < 127) \<or> (160 < n \<and> n \<noteq> 173))"

definition repr_char :: "char \<Rightarrow> char \<Rightarrow> string" where
  "repr_char quote c =
     (if c = quote \<or> c = CHR 0x5C then [CHR 0x5C, c]
      else if c = CHR 0x09 then [CHR 0x5C, CHR ''t'']
      else if c = CHR 0x0A then [CHR 0x5C, CHR ''n'']
      else if c = CHR 0x0D then [CHR 0x5C, CHR ''r'']
      else if py_isprintable c then [c]
      else [CHR 0x5C, CHR ''x'', hex_digit (of_char c div 16), hex_digit (of_char c mod 16)])"

definition py_repr_str :: "string \<Rightarrow> string" where
  "py_repr_str s =
     (let quote = (if CHR 0x27 \<in> set s \<and> CHR 0x22 \<notin> set s then CHR 0x22 else CHR 0x27)
      in [quote] @ concat (map (repr_char quote) s) @ [quote])"

fun comma_join :: "string list \<Rightarrow> string" where
  "comma_join [] = []"
| "comma_join [x] = x"
| "comma_join (x # y # ys) = x @ '', '' @ comma_join (y # ys)"

definition py_repr_list :: "string list \<Rightarrow> string" where
  "py_repr_list xs = ''['' @ comma_join (map py_repr_str xs) @ '']''"

section \<open>The class module: \<^verbatim>\<open>myproject2/myclass.py\<close>\<close>

text \<open>
  An instance of \<^verbatim>\<open>MyClass\<close> has no attribute of its own. Its methods print the globals of
  the module that defined the class, so an instance is modelled by those globals.
\<close>

record MyClass =
  defining_module :: module_globals

text \<open>\<^verbatim>\<open>MyClass.__init__\<close> (lines 4-5): called with no argument, prints one line.\<close>

definition MyClass_init :: "module_globals \<Rightarrow> pystate \<Rightarrow> MyClass \<times> pystate" where
  "MyClass_init cls s = (\<lparr>defining_module = cls\<rparr>, py_print ''MyClass initialized'' s)"

text \<open>\<^verbatim>\<open>MyClass.dump\<close> (lines 7-12).\<close>

definition dump :: "MyClass \<Rightarrow> pystate \<Rightarrow> pystate" where
  "dump self s0 =
     (let g = defining_module self;
          s1 = py_print ''myclass attributes...'' s0;
          s2 = py_print (''Module: '' @ dunder_name g) s1;
          s3 = py_print (''Package: '' @ py_str (dunder_package g)) s2;
          s4 = py_print (''File Path: '' @ dunder_file g) s3;
          s5 = py_print [] s4
      in s5)"

text \<open>
  The module body (lines 3-17): the class statement prints nothing; the guard at the end
  runs only when the file is the program's main module.
\<close>

definition myclass_module :: "module_globals \<Rightarrow> pystate \<Rightarrow> pystate" where
  "myclass_module g s0 =
     (if dunder_name g = ''__main__'' then
        (let s1 = py_print ''myclass.py called directly'' s0;
             (mc, s2) = MyClass_init g s1
         in dump mc s2)
      else s0)"

section \<open>Paths, files and the import of the class\<close>

text \<open>
  \<^verbatim>\<open>os.path.join\<close> and \<^verbatim>\<open>os.path.dirname\<close> as \<^verbatim>\<open>posixpath\<close> defines them. A component
  that starts with \<^verbatim>\<open>/\<close> replaces what came before; otherwise it is appended, after a
  \<^verbatim>\<open>/\<close> unless the path so far is empty or ends with one.
\<close>

definition os_path_join2 :: "string \<Rightarrow> string \<Rightarrow> string" where
  "os_path_join2 path b =
     (if b \<noteq> [] \<and> hd b = CHR ''/'' then b
      else if path = [] \<or> last path = CHR ''/'' then path @ b
      else path @ ''/'' @ b)"

definition os_path_join :: "string \<Rightarrow> string list \<Rightarrow> string" where
  "os_path_join a ps = foldl os_path_join2 a ps"

text \<open>
  \<^verbatim>\<open>dirname\<close>: the path up to its last \<^verbatim>\<open>/\<close>, with the trailing slashes removed unless
  nothing but slashes would be left.
\<close>

definition os_path_dirname :: "string \<Rightarrow> string" where
  "os_path_dirname p =
     (let head = rev (dropWhile (\<lambda>c. c \<noteq> CHR ''/'') (rev p))
      in if head \<noteq> [] \<and> \<not> list_all (\<lambda>c. c = CHR ''/'') head
         then rev (dropWhile (\<lambda>c. c = CHR ''/'') (rev head))
         else head)"

text \<open>
  What the import system and the interpreter's start-up ask of their environment: whether
  a path is a regular file, whether it is a directory, the path that \<^verbatim>\<open>realpath\<close> resolves
  a path to (symbolic links followed, \<^verbatim>\<open>.\<close> and \<^verbatim>\<open>..\<close> removed), the current directory,
  and the suffixes other than \<^verbatim>\<open>.py\<close> under which the interpreter finds a module (the
  bytecode suffix and the platform's extension-module suffixes).
\<close>

record filesystem =
  isfile :: "string \<Rightarrow> bool"
  isdir :: "string \<Rightarrow> bool"
  realpath :: "string \<Rightarrow> string"
  getcwd :: string
  other_suffixes :: "string list"

text \<open>
  \<^verbatim>\<open>importlib\<close> has its own join, \<^verbatim>\<open>_path_join\<close>: the empty parts are dropped, the
  trailing slashes of each part are removed, and the parts are joined with \<^verbatim>\<open>/\<close>. The
  finder of a search-path entry works from the current directory when the entry is empty
  or \<^verbatim>\<open>.\<close>, from the entry joined to the current directory when it is relative, and from
  the entry itself when it is absolute (\<^verbatim>\<open>FileFinder.__init__\<close>). The \<^verbatim>\<open>__file__\<close> of a
  module found, and the directory of a package found, are joined from that path.
\<close>

definition rstrip_sep :: "string \<Rightarrow> string" where
  "rstrip_sep p = rev (dropWhile (\<lambda>c. c = CHR ''/'') (rev p))"

fun sep_join :: "string list \<Rightarrow> string" where
  "sep_join [] = []"
| "sep_join [x] = x"
| "sep_join (x # y # ys) = x @ ''/'' @ sep_join (y # ys)"

definition path_join :: "string list \<Rightarrow> string" where
  "path_join parts = sep_join (map rstrip_sep (filter (\<lambda>p. p \<noteq> []) parts))"

definition finder_path :: "filesystem \<Rightarrow> string \<Rightarrow> string" where
  "finder_path fs entry =
     (if entry = [] \<or> entry = ''.'' then getcwd fs
      else if hd entry \<noteq> CHR ''/'' then path_join [getcwd fs, entry]
      else entry)"

text \<open>
  The path-based finder (\<^verbatim>\<open>PathFinder._get_spec\<close> over \<^verbatim>\<open>FileFinder.find_spec\<close>) walks
  the given directories in order. The first one that holds the file \<^verbatim>\<open>name.py\<close> ends the
  search: the module is that source file. A directory that holds a directory \<^verbatim>\<open>name\<close>
  instead is remembered as a portion of a namespace package and the search goes on; when
  no source file is found, the remembered portions make the namespace package, and when
  there are none the module is missing. The files are probed as \<^verbatim>\<open>os.path.join\<close> of the
  entry and the name, which is the same file for the operating system as the finder's
  own join.

  The model stops at source files and plain directories. What the interpreter does when
  it meets a regular package (a directory with an \<^verbatim>\<open>__init__\<close> file) or a module in another
  form (bytecode, extension) depends on code that is not the repository's; the finder
  below looks past them, and the theorems about the outcome of an import assume, through
  the predicates \<open>only_class_module\<close> and \<open>only_package_directory\<close>, that the directories
  searched hold none.
\<close>

datatype module_spec = Source string | Namespace "string list" | Missing

fun path_finder :: "filesystem \<Rightarrow> string list \<Rightarrow> string \<Rightarrow> string list \<Rightarrow> module_spec" where
  "path_finder fs [] m portions = (if portions = [] then Missing else Namespace portions)"
| "path_finder fs (d # ds) m portions =
     (if isfile fs (os_path_join2 d (m @ ''.py''))
      then Source (path_join [finder_path fs d, m @ ''.py''])
      else if isdir fs (os_path_join2 d m)
      then path_finder fs ds m (portions @ [path_join [finder_path fs d, m]])
      else path_finder fs ds m portions)"

text \<open>
  The import errors the scripts can meet: \<^verbatim>\<open>ModuleNotFoundError\<close> with the name of the
  module that is missing and, when the import went through a module that is not a package,
  the name of that module; and \<^verbatim>\<open>ImportError\<close> for a name that the module found does not
  define.
\<close>

datatype import_error =
    ModuleNotFoundError string "string option"
  | ImportError string string

text \<open>
  Modelled from the spec: the class modules that \<^verbatim>\<open>myproject0\<close> and \<^verbatim>\<open>myproject6\<close> import
  (\<^verbatim>\<open>myproject0/myclass.py\<close>, \<^verbatim>\<open>myproject6/classes/myclass.py\<close>) are not among the
  sources. The spec describes the variants as near-identical copies that differ only in how
  the script locates the class definition, so a source file found under the name
  \<^verbatim>\<open>myclass\<close> is given the body of \<^verbatim>\<open>myproject2/myclass.py\<close>.

  \<^verbatim>\<open>from myclass import MyClass\<close> (\<^verbatim>\<open>myproject0/myscript.py\<close> line 3,
  \<^verbatim>\<open>myproject6/scripts/myscript.py\<close> line 5). When the source file is found, its body runs
  with the attributes of an imported top-level module and the name \<^verbatim>\<open>MyClass\<close> is bound
  to the class it defines. When only directories named \<^verbatim>\<open>myclass\<close> are found, the module
  is a namespace package, which has no \<^verbatim>\<open>MyClass\<close>: the statement raises
  \<^verbatim>\<open>ImportError\<close>. When nothing is found it raises \<^verbatim>\<open>ModuleNotFoundError\<close>.
\<close>

definition from_myclass_import_MyClass ::
    "filesystem \<Rightarrow> pystate \<Rightarrow> import_error + module_globals \<times> pystate" where
  "from_myclass_import_MyClass fs s =
     (case path_finder fs (sys_path s) ''myclass'' [] of
        Missing \<Rightarrow> Inl (ModuleNotFoundError ''myclass'' None)
      | Namespace portions \<Rightarrow> Inl (ImportError ''MyClass'' ''myclass'')
      | Source f \<Rightarrow>
          (let cls = \<lparr>dunder_name = ''myclass'', dunder_package = Some [], dunder_file = f\<rparr>
           in Inr (cls, myclass_module cls s)))"

text \<open>
  \<^verbatim>\<open>from myproject2.myclass import MyClass\<close> (\<^verbatim>\<open>myproject2/myscript.py\<close> line 3): the
  package first, then the module inside the package's directories. The repository has no
  \<^verbatim>\<open>__init__.py\<close>, so \<^verbatim>\<open>myproject2\<close> is a namespace package. A source file
  \<^verbatim>\<open>myproject2.py\<close> found first is a module and not a package, and the import of
  \<^verbatim>\<open>myproject2.myclass\<close> fails on it; such a file is not the repository's, and the model
  takes its body to do nothing.
\<close>

definition from_myproject2_myclass_import_MyClass ::
    "filesystem \<Rightarrow> pystate \<Rightarrow> import_error + module_globals \<times> pystate" where
  "from_myproject2_myclass_import_MyClass fs s =
     (case path_finder fs (sys_path s) ''myproject2'' [] of
        Missing \<Rightarrow> Inl (ModuleNotFoundError ''myproject2'' None)
      | Source f \<Rightarrow> Inl (ModuleNotFoundError ''myproject2.myclass'' (Some ''myproject2''))
      | Namespace portions \<Rightarrow>
          (case path_finder fs portions ''myclass'' [] of
             Missing \<Rightarrow> Inl (ModuleNotFoundError ''myproject2.myclass'' None)
           | Namespace qs \<Rightarrow> Inl (ImportError ''MyClass'' ''myproject2.myclass'')
           | Source f \<Rightarrow>
               (let cls = \<lparr>dunder_name = ''myproject2.myclass'',
                           dunder_package = Some ''myproject2'', dunder_file = f\<rparr>
                in Inr (cls, myclass_module cls s))))"

text \<open>
  The directories that the theorems about the outcome of an import are about. A directory
  is plain when it holds no \<^verbatim>\<open>__init__\<close> file in any form. A list of search-path entries
  holds only the class module when none of them is itself a file (an archive), none holds
  \<^verbatim>\<open>myclass\<close> in a form other than source, and every directory \<^verbatim>\<open>myclass\<close> in them is
  plain and holds nothing named \<^verbatim>\<open>MyClass\<close>. It holds only the package directory when
  none of them is itself a file, none holds a module \<^verbatim>\<open>myproject2\<close> in any form, and
  every directory \<^verbatim>\<open>myproject2\<close> in them is plain. \<open>portions\<close> are the directories of the
  namespace package that the finder collects.
\<close>

definition other_forms :: "filesystem \<Rightarrow> string \<Rightarrow> string \<Rightarrow> string list" where
  "other_forms fs dir name = map (\<lambda>x. os_path_join2 dir (name @ x)) (other_suffixes fs)"

definition plain_directory :: "filesystem \<Rightarrow> string \<Rightarrow> bool" where
  "plain_directory fs dir =
     list_all (\<lambda>f. \<not> isfile fs f)
       (os_path_join2 dir ''__init__.py'' # other_forms fs dir ''__init__'')"

definition nothing_named :: "filesystem \<Rightarrow> string \<Rightarrow> string \<Rightarrow> bool" where
  "nothing_named fs dir name =
     (\<not> isdir fs (os_path_join2 dir name) \<and>
      list_all (\<lambda>f. \<not> isfile fs f)
        (os_path_join2 dir (name @ ''.py'') # other_forms fs dir name))"

definition only_class_module :: "filesystem \<Rightarrow> string list \<Rightarrow> bool" where
  "only_class_module fs dirs =
     list_all (\<lambda>d.
       \<not> isfile fs d \<and>
       list_all (\<lambda>f. \<not> isfile fs f) (other_forms fs d ''myclass'') \<and>
       (if isdir fs (os_path_join2 d ''myclass'')
        then plain_directory fs (os_path_join2 d ''myclass'') \<and>
             nothing_named fs (os_path_join2 d ''myclass'') ''MyClass''
        else True)) dirs"

definition only_package_directory :: "filesystem \<Rightarrow> string list \<Rightarrow> bool" where
  "only_package_directory fs dirs =
     list_all (\<lambda>d.
       \<not> isfile fs d \<and>
       list_all (\<lambda>f. \<not> isfile fs f)
         (os_path_join2 d ''myproject2.py'' # other_forms fs d ''myproject2'') \<and>
       (if isdir fs (os_path_join2 d ''myproject2'')
        then plain_directory fs (os_path_join2 d ''myproject2'')
        else True)) dirs"

definition portions :: "filesystem \<Rightarrow> string list \<Rightarrow> string \<Rightarrow> string list" where
  "portions fs dirs m =
     map (\<lambda>d. path_join [finder_path fs d, m]) (filter (\<lambda>d. isdir fs (os_path_join2 d m)) dirs)"

section \<open>The scripts\<close>

text \<open>
  \<^verbatim>\<open>main\<close> is the same text in the three scripts (lines 6-15; 7-16 in \<^verbatim>\<open>myproject6\<close>).
  \<open>g\<close> are the globals of the script's module, \<open>cls\<close> the imported class.
\<close>

definition main :: "module_globals \<Rightarrow> module_globals \<Rightarrow> pystate \<Rightarrow> pystate" where
  "main g cls s0 =
     (let s1 = py_print ''myscript attributes...'' s0;
          s2 = py_print (''Module: '' @ dunder_name g) s1;
          s3 = py_print (''Package: '' @ py_str (dunder_package g)) s2;
          s4 = py_print (''File Path: '' @ dunder_file g) s3;
          s5 = py_print (''sys.path: '' @ py_repr_list (sys_path s4)) s4;
          s6 = py_print [] s5;
          (mc, s7) = MyClass_init cls s6
      in dump mc s7)"

text \<open>
  An exception that nothing catches, with the line of the script that raised it and the
  text of that line, which the traceback shows.
\<close>

record uncaught =
  exc_value :: import_error
  exc_lineno :: string
  exc_source :: string

text \<open>
  The guard at the end of each script (\<^verbatim>\<open>if __name__ == "__main__":\<close>), shared by the
  three module bodies.
\<close>

definition main_guard :: "module_globals \<Rightarrow> module_globals \<Rightarrow> pystate \<Rightarrow> pystate" where
  "main_guard g cls s0 =
     (if dunder_name g = ''__main__'' then
        (let s1 = py_print ''myscript.py called directly'' s0 in main g cls s1)
      else s0)"

text \<open>The module body of \<^verbatim>\<open>myproject0/myscript.py\<close>.\<close>

definition myproject0_myscript ::
    "filesystem \<Rightarrow> module_globals \<Rightarrow> pystate \<Rightarrow> uncaught option \<times> pystate" where
  "myproject0_myscript fs g s0 =
     (case from_myclass_import_MyClass fs s0 of
        Inl e \<Rightarrow>
          (Some \<lparr>exc_value = e, exc_lineno = ''3'',
                 exc_source = ''from myclass import MyClass''\<rparr>, s0)
      | Inr (cls, s1) \<Rightarrow> (None, main_guard g cls s1))"

text \<open>The module body of \<^verbatim>\<open>myproject2/myscript.py\<close>.\<close>

definition myproject2_myscript ::
    "filesystem \<Rightarrow> module_globals \<Rightarrow> pystate \<Rightarrow> uncaught option \<times> pystate" where
  "myproject2_myscript fs g s0 =
     (case from_myproject2_myclass_import_MyClass fs s0 of
        Inl e \<Rightarrow>
          (Some \<lparr>exc_value = e, exc_lineno = ''3'',
                 exc_source = ''from myproject2.myclass import MyClass''\<rparr>, s0)
      | Inr (cls, s1) \<Rightarrow> (None, main_guard g cls s1))"

text \<open>
  The module body of \<^verbatim>\<open>myproject6/scripts/myscript.py\<close>: line 4 appends to \<^verbatim>\<open>sys.path\<close>,
  line 5 imports.
\<close>

definition classes_dir :: "module_globals \<Rightarrow> string" where
  "classes_dir g = os_path_join (os_path_dirname (dunder_file g)) [''..'', ''classes'']"

definition myproject6_myscript ::
    "filesystem \<Rightarrow> module_globals \<Rightarrow> pystate \<Rightarrow> uncaught option \<times> pystate" where
  "myproject6_myscript fs g s0 =
     (let s1 = s0\<lparr>sys_path := sys_path s0 @ [classes_dir g]\<rparr>
      in case from_myclass_import_MyClass fs s1 of
           Inl e \<Rightarrow>
             (Some \<lparr>exc_value = e, exc_lineno = ''5'',
                    exc_source = ''from myclass import MyClass''\<rparr>, s1)
         | Inr (cls, s2) \<Rightarrow> (None, main_guard g cls s2))"

datatype variant = Myproject0 | Myproject2 | Myproject6

fun myscript ::
    "variant \<Rightarrow> filesystem \<Rightarrow> module_globals \<Rightarrow> pystate \<Rightarrow> uncaught option \<times> pystate" where
  "myscript Myproject0 = myproject0_myscript"
| "myscript Myproject2 = myproject2_myscript"
| "myscript Myproject6 = myproject6_myscript"

section \<open>A run of the interpreter\<close>

text \<open>
  The interpreter runs a module body as the program's main module, starting from a given
  search path and an empty output. When the body ends, the exit status is 0. When it
  raises, the interpreter writes the traceback to standard error and the exit status is 1.
\<close>

definition exception_line :: "import_error \<Rightarrow> string" where
  "exception_line e =
     (case e of
        ModuleNotFoundError m None \<Rightarrow>
          ''ModuleNotFoundError: No module named '' @ py_repr_str m
      | ModuleNotFoundError m (Some p) \<Rightarrow>
          ''ModuleNotFoundError: No module named '' @ py_repr_str m @ ''; '' @
          py_repr_str p @ '' is not a package''
      | ImportError n m \<Rightarrow>
          ''ImportError: cannot import name '' @ py_repr_str n @ '' from '' @
          py_repr_str m @ '' (unknown location)'')"

definition traceback :: "string \<Rightarrow> uncaught \<Rightarrow> string list" where
  "traceback file u =
     [''Traceback (most recent call last):'',
      ''  File '' @ [CHR 0x22] @ file @ [CHR 0x22] @ '', line '' @ exc_lineno u @ '', in <module>'',
      ''    '' @ exc_source u,
      exception_line (exc_value u)]"

record process =
  final :: pystate
  stderr :: "string list"
  exit_status :: nat

definition python ::
    "(module_globals \<Rightarrow> pystate \<Rightarrow> uncaught option \<times> pystate) \<Rightarrow>
     module_globals \<Rightarrow> string list \<Rightarrow> process" where
  "python body g path =
     (case body g \<lparr>sys_path = path, stdout = []\<rparr> of
        (None, s) \<Rightarrow> \<lparr>final = s, stderr = [], exit_status = 0\<rparr>
      | (Some u, s) \<Rightarrow> \<lparr>final = s, stderr = traceback (dunder_file g) u, exit_status = 1\<rparr>)"

text \<open>
  \<^verbatim>\<open>python FILE\<close>, with \<open>file\<close> the path of the script as the interpreter makes it
  absolute: the module is \<^verbatim>\<open>__main__\<close>, it has no package (\<^verbatim>\<open>__package__\<close> is
  \<^verbatim>\<open>None\<close>), its \<^verbatim>\<open>__file__\<close> is that path, and the search path is the directory of the
  resolved script (\<^verbatim>\<open>realpath\<close>, so the target's directory when the script is reached
  through a symbolic link) followed by the interpreter's own entries \<open>site\<close> (the standard
  library and the installed packages). This is the search path when nothing was
  configured.
\<close>

definition script_globals :: "string \<Rightarrow> module_globals" where
  "script_globals file = \<lparr>dunder_name = ''__main__'', dunder_package = None, dunder_file = file\<rparr>"

definition default_sys_path :: "filesystem \<Rightarrow> string \<Rightarrow> string list \<Rightarrow> string list" where
  "default_sys_path fs file site = os_path_dirname (realpath fs file) # site"

definition python_file ::
    "filesystem \<Rightarrow> (module_globals \<Rightarrow> pystate \<Rightarrow> uncaught option \<times> pystate) \<Rightarrow>
     string \<Rightarrow> string list \<Rightarrow> process" where
  "python_file fs body file site =
     python body (script_globals file) (default_sys_path fs file site)"

text \<open>The class module run as a program: its body cannot raise.\<close>

definition myclass_program :: "module_globals \<Rightarrow> pystate \<Rightarrow> uncaught option \<times> pystate" where
  "myclass_program g s = (None, myclass_module g s)"

section \<open>A file system for the examples\<close>

text \<open>
  The file system that holds exactly the listed files and the directories above them, with
  no symbolic link and the root as the current directory. Paths are compared after the
  empty and \<^verbatim>\<open>.\<close> components are dropped and each \<^verbatim>\<open>..\<close> has removed the component before
  it; \<^verbatim>\<open>realpath\<close> returns the path in that form.
\<close>

fun split_on :: "char \<Rightarrow> string \<Rightarrow> string list" where
  "split_on sep [] = [[]]"
| "split_on sep (c # cs) =
     (if c = sep then [] # split_on sep cs
      else (case split_on sep cs of [] \<Rightarrow> [[c]] | w # ws \<Rightarrow> (c # w) # ws))"

definition components :: "string \<Rightarrow> string list" where
  "components p =
     rev (foldl (\<lambda>acc c. if c = [] \<or> c = ''.'' then acc
                          else if c = ''..'' then tl acc else c # acc)
            [] (split_on CHR ''/'' p))"

definition is_above :: "string list \<Rightarrow> string list \<Rightarrow> bool" where
  "is_above d f = (length d < length f \<and> take (length d) f = d)"

definition tree :: "string list \<Rightarrow> filesystem" where
  "tree files =
     \<lparr>isfile = (\<lambda>p. components p \<in> set (map components files)),
      isdir = (\<lambda>p. list_ex (\<lambda>f. is_above (components p) (components f)) files),
      realpath = (\<lambda>p. CHR ''/'' # sep_join (components p)),
      getcwd = ''/'',
      other_suffixes = [''.cpython-311-x86_64-linux-gnu.so'', ''.abi3.so'', ''.so'', ''.pyc'']\<rparr>"

text \<open>The four files of the repository, checked out at \<^verbatim>\<open>/repo\<close>.\<close>

definition repo :: filesystem where
  "repo = tree [''/repo/myproject0/myscript.py'', ''/repo/myproject2/myclass.py'',
                ''/repo/myproject2/myscript.py'', ''/repo/myproject6/scripts/myscript.py'']"

text \<open>
  The same checkout with a copy of the class module where \<^verbatim>\<open>myproject0\<close> and
  \<^verbatim>\<open>myproject6\<close> import it from: beside the script, and in \<^verbatim>\<open>classes\<close> beside
  \<^verbatim>\<open>scripts\<close>.
\<close>

definition checkout :: filesystem where
  "checkout = tree [''/repo/myproject0/myclass.py'', ''/repo/myproject0/myscript.py'',
                    ''/repo/myproject2/myclass.py'', ''/repo/myproject2/myscript.py'',
                    ''/repo/myproject6/classes/myclass.py'',
                    ''/repo/myproject6/scripts/myscript.py'']"


section \<open>Properties\<close>

lemma stdout_py_print: "stdout (py_print l s) = stdout s @ [l]"
  by (simp add: py_print_def)

lemma sys_path_py_print: "sys_path (py_print l s) = sys_path s"
  by (simp add: py_print_def)

lemma stdout_dump:
  "stdout (dump mc s) = stdout s @
     [''myclass attributes...'',
      ''Module: '' @ dunder_name (defining_module mc),
      ''Package: '' @ py_str (dunder_package (defining_module mc)),
      ''File Path: '' @ dunder_file (defining_module mc),
      []]"
  by (simp add: dump_def Let_def stdout_py_print)

lemma sys_path_dump: "sys_path (dump mc s) = sys_path s"
  by (simp add: dump_def Let_def sys_path_py_print)

lemma myclass_module_imported: "dunder_name g \<noteq> ''__main__'' \<Longrightarrow> myclass_module g s = s"
  by (simp add: myclass_module_def)

lemma stdout_MyClass_init: "stdout (snd (MyClass_init cls s)) = stdout s @ [''MyClass initialized'']"
  by (simp add: MyClass_init_def stdout_py_print)

lemma stdout_main:
  "stdout (main g cls s) = stdout s @
     [''myscript attributes...'',
      ''Module: '' @ dunder_name g,
      ''Package: '' @ py_str (dunder_package g),
      ''File Path: '' @ dunder_file g,
      ''sys.path: '' @ py_repr_list (sys_path s),
      [],
      ''MyClass initialized'',
      ''myclass attributes...'',
      ''Module: '' @ dunder_name cls,
      ''Package: '' @ py_str (dunder_package cls),
      ''File Path: '' @ dunder_file cls,
      []]"
  by (simp add: main_def MyClass_init_def Let_def stdout_dump stdout_py_print sys_path_py_print)

lemma sys_path_main: "sys_path (main g cls s) = sys_path s"
  by (simp add: main_def MyClass_init_def Let_def sys_path_dump sys_path_py_print)

lemma sys_path_main_guard: "sys_path (main_guard g cls s) = sys_path s"
  by (simp add: main_guard_def Let_def sys_path_main sys_path_py_print)

lemma stdout_main_guard:
  "dunder_name g = ''__main__'' \<Longrightarrow>
   stdout (main_guard g cls s) = stdout s @
     [''myscript.py called directly'',
      ''myscript attributes...'',
      ''Module: __main__'',
      ''Package: '' @ py_str (dunder_package g),
      ''File Path: '' @ dunder_file g,
      ''sys.path: '' @ py_repr_list (sys_path s),
      [],
      ''MyClass initialized'',
      ''myclass attributes...'',
      ''Module: '' @ dunder_name cls,
      ''Package: '' @ py_str (dunder_package cls),
      ''File Path: '' @ dunder_file cls,
      []]"
  by (simp add: main_guard_def Let_def stdout_main stdout_py_print sys_path_py_print)

lemma path_finder_source:
  "\<exists>d\<in>set ds. isfile fs (os_path_join2 d (m @ ''.py'')) \<Longrightarrow>
   \<exists>f. path_finder fs ds m acc = Source f"
  by (induction ds arbitrary: acc) auto

lemma path_finder_no_source:
  "\<forall>d\<in>set ds. \<not> isfile fs (os_path_join2 d (m @ ''.py'')) \<Longrightarrow>
   path_finder fs ds m acc =
     (if acc @ portions fs ds m = [] then Missing else Namespace (acc @ portions fs ds m))"
  by (induction ds arbitrary: acc) (auto simp: portions_def)

lemma path_finder_Source_iff:
  "(\<exists>f. path_finder fs ds m acc = Source f) \<longleftrightarrow>
   (\<exists>d\<in>set ds. isfile fs (os_path_join2 d (m @ ''.py'')))"
proof
  assume "\<exists>f. path_finder fs ds m acc = Source f"
  then obtain f where f: "path_finder fs ds m acc = Source f" ..
  show "\<exists>d\<in>set ds. isfile fs (os_path_join2 d (m @ ''.py''))"
  proof (rule ccontr)
    assume "\<not> (\<exists>d\<in>set ds. isfile fs (os_path_join2 d (m @ ''.py'')))"
    then have "\<forall>d\<in>set ds. \<not> isfile fs (os_path_join2 d (m @ ''.py''))" by blast
    from path_finder_no_source [OF this, of acc] f show False
      by (simp split: if_splits)
  qed
qed (rule path_finder_source)


lemma from_myclass_import_MyClass_eq:
  "from_myclass_import_MyClass fs s =
     (case path_finder fs (sys_path s) ''myclass'' [] of
        Missing \<Rightarrow> Inl (ModuleNotFoundError ''myclass'' None)
      | Namespace ps \<Rightarrow> Inl (ImportError ''MyClass'' ''myclass'')
      | Source f \<Rightarrow>
          Inr (\<lparr>dunder_name = ''myclass'', dunder_package = Some [], dunder_file = f\<rparr>, s))"
  by (simp add: from_myclass_import_MyClass_def myclass_module_def split: module_spec.split)

lemma from_myproject2_myclass_import_MyClass_eq:
  "from_myproject2_myclass_import_MyClass fs s =
     (case path_finder fs (sys_path s) ''myproject2'' [] of
        Missing \<Rightarrow> Inl (ModuleNotFoundError ''myproject2'' None)
      | Source f \<Rightarrow> Inl (ModuleNotFoundError ''myproject2.myclass'' (Some ''myproject2''))
      | Namespace ps \<Rightarrow>
          (case path_finder fs ps ''myclass'' [] of
             Missing \<Rightarrow> Inl (ModuleNotFoundError ''myproject2.myclass'' None)
           | Namespace qs \<Rightarrow> Inl (ImportError ''MyClass'' ''myproject2.myclass'')
           | Source f \<Rightarrow>
               Inr (\<lparr>dunder_name = ''myproject2.myclass'',
                      dunder_package = Some ''myproject2'', dunder_file = f\<rparr>, s)))"
  by (simp add: from_myproject2_myclass_import_MyClass_def myclass_module_def
      split: module_spec.split)

lemma from_myclass_import_MyClass_Inr:
  "from_myclass_import_MyClass fs s = Inr (c, s') \<Longrightarrow>
   s' = s \<and> dunder_name c = ''myclass'' \<and> dunder_package c = Some []"
  by (auto simp: from_myclass_import_MyClass_eq split: module_spec.splits)

lemma from_myproject2_myclass_import_MyClass_Inr:
  "from_myproject2_myclass_import_MyClass fs s = Inr (c, s') \<Longrightarrow>
   s' = s \<and> dunder_name c = ''myproject2.myclass'' \<and> dunder_package c = Some ''myproject2''"
  by (auto simp: from_myproject2_myclass_import_MyClass_eq split: module_spec.splits)

lemma import_myclass_found:
  "(\<exists>c. from_myclass_import_MyClass fs s = Inr (c, s)) \<longleftrightarrow>
   (\<exists>d\<in>set (sys_path s). isfile fs (os_path_join2 d ''myclass.py''))"
  using path_finder_Source_iff [of fs "sys_path s" "''myclass''" "[]"]
  by (auto simp: from_myclass_import_MyClass_eq split: module_spec.splits)


lemma only_package_directory_no_module:
  "only_package_directory fs ds \<Longrightarrow> \<forall>d\<in>set ds. \<not> isfile fs (os_path_join2 d ''myproject2.py'')"
  by (simp add: only_package_directory_def list_all_iff)

lemma import_myproject2_found:
  assumes "\<forall>d\<in>set (sys_path s). \<not> isfile fs (os_path_join2 d ''myproject2.py'')"
  shows "(\<exists>c. from_myproject2_myclass_import_MyClass fs s = Inr (c, s)) \<longleftrightarrow>
   (\<exists>q\<in>set (portions fs (sys_path s) ''myproject2''). isfile fs (os_path_join2 q ''myclass.py''))"
proof (cases "portions fs (sys_path s) ''myproject2'' = []")
  case True
  then show ?thesis
    using path_finder_no_source [of "sys_path s" fs "''myproject2''" "[]"] assms
    by (simp add: from_myproject2_myclass_import_MyClass_eq)
next
  case False
  then have p: "path_finder fs (sys_path s) ''myproject2'' [] =
      Namespace (portions fs (sys_path s) ''myproject2'')"
    using path_finder_no_source [of "sys_path s" fs "''myproject2''" "[]"] assms by simp
  show ?thesis
    using path_finder_Source_iff [of fs "portions fs (sys_path s) ''myproject2''" "''myclass''" "[]"]
    by (auto simp: from_myproject2_myclass_import_MyClass_eq p split: module_spec.splits)
qed


subsection \<open>The reporter\<close>

text \<open>
  C6: constructing a \<^verbatim>\<open>MyClass\<close> takes no argument and cannot fail (it always returns an
  instance and a state), adds exactly one line, the creation notice, to standard output and
  leaves the search path alone; a report of that instance comes after the notice.
\<close>

theorem MyClass_init_one_notice:
  "stdout (snd (MyClass_init cls s)) = stdout s @ [''MyClass initialized''] \<and>
   sys_path (snd (MyClass_init cls s)) = sys_path s \<and>
   defining_module (fst (MyClass_init cls s)) = cls \<and>
   stdout (dump (fst (MyClass_init cls s)) (snd (MyClass_init cls s))) =
     stdout s @ [''MyClass initialized'', ''myclass attributes...'',
       ''Module: '' @ dunder_name cls, ''Package: '' @ py_str (dunder_package cls),
       ''File Path: '' @ dunder_file cls, []]"
  by (simp add: MyClass_init_def stdout_dump stdout_py_print sys_path_py_print)

text \<open>
  C7: two calls of \<^verbatim>\<open>dump\<close> on one instance add the same block of five lines twice: the
  header, the module, package and file path lines, and the empty line.
\<close>

theorem dump_twice_identical:
  "stdout (dump mc (dump mc s)) = stdout s @
     [''myclass attributes...'',
      ''Module: '' @ dunder_name (defining_module mc),
      ''Package: '' @ py_str (dunder_package (defining_module mc)),
      ''File Path: '' @ dunder_file (defining_module mc),
      []] @
     [''myclass attributes...'',
      ''Module: '' @ dunder_name (defining_module mc),
      ''Package: '' @ py_str (dunder_package (defining_module mc)),
      ''File Path: '' @ dunder_file (defining_module mc),
      []] \<and>
   sys_path (dump mc (dump mc s)) = sys_path s"
  by (simp add: stdout_dump sys_path_dump)

subsection \<open>The runs of the three scripts\<close>

lemma python_myproject0:
  "python (myproject0_myscript fs) g path =
     (case from_myclass_import_MyClass fs \<lparr>sys_path = path, stdout = []\<rparr> of
        Inl e \<Rightarrow>
          \<lparr>final = \<lparr>sys_path = path, stdout = []\<rparr>,
           stderr = traceback (dunder_file g)
             \<lparr>exc_value = e, exc_lineno = ''3'', exc_source = ''from myclass import MyClass''\<rparr>,
           exit_status = 1\<rparr>
      | Inr (cls, s1) \<Rightarrow>
          \<lparr>final = main_guard g cls \<lparr>sys_path = path, stdout = []\<rparr>,
           stderr = [], exit_status = 0\<rparr>)"
  by (auto simp: python_def myproject0_myscript_def split: sum.split
      dest: from_myclass_import_MyClass_Inr)

lemma python_myproject6:
  "python (myproject6_myscript fs) g path =
     (case from_myclass_import_MyClass fs \<lparr>sys_path = path @ [classes_dir g], stdout = []\<rparr> of
        Inl e \<Rightarrow>
          \<lparr>final = \<lparr>sys_path = path @ [classes_dir g], stdout = []\<rparr>,
           stderr = traceback (dunder_file g)
             \<lparr>exc_value = e, exc_lineno = ''5'', exc_source = ''from myclass import MyClass''\<rparr>,
           exit_status = 1\<rparr>
      | Inr (cls, s1) \<Rightarrow>
          \<lparr>final = main_guard g cls \<lparr>sys_path = path @ [classes_dir g], stdout = []\<rparr>,
           stderr = [], exit_status = 0\<rparr>)"
  by (auto simp: python_def myproject6_myscript_def Let_def split: sum.split
      dest: from_myclass_import_MyClass_Inr)

lemma python_myproject2:
  "python (myproject2_myscript fs) g path =
     (case from_myproject2_myclass_import_MyClass fs \<lparr>sys_path = path, stdout = []\<rparr> of
        Inl e \<Rightarrow>
          \<lparr>final = \<lparr>sys_path = path, stdout = []\<rparr>,
           stderr = traceback (dunder_file g)
             \<lparr>exc_value = e, exc_lineno = ''3'',
              exc_source = ''from myproject2.myclass import MyClass''\<rparr>,
           exit_status = 1\<rparr>
      | Inr (cls, s1) \<Rightarrow>
          \<lparr>final = main_guard g cls \<lparr>sys_path = path, stdout = []\<rparr>,
           stderr = [], exit_status = 0\<rparr>)"
  by (auto simp: python_def myproject2_myscript_def split: sum.split
      dest: from_myproject2_myclass_import_MyClass_Inr)


lemma length_traceback: "length (traceback f u) = 4"
  by (simp add: traceback_def)

lemma python_myscript_success:
  assumes "exit_status (python (myscript v fs) g path) = 0"
  shows "\<exists>cls p. final (python (myscript v fs) g path) =
           main_guard g cls \<lparr>sys_path = p, stdout = []\<rparr> \<and>
         stderr (python (myscript v fs) g path) = []"
proof (cases v)
  case Myproject0
  with assms show ?thesis
    by (auto simp: python_myproject0 split: sum.splits)
next
  case Myproject2
  with assms show ?thesis
    by (auto simp: python_myproject2 split: sum.splits)
next
  case Myproject6
  with assms show ?thesis
    by (auto simp: python_myproject6 split: sum.splits)
qed




lemma repo_myproject2_found:
  "from_myproject2_myclass_import_MyClass repo
     \<lparr>sys_path = [''/repo/myproject2'', ''/repo''], stdout = []\<rparr> =
   Inr (\<lparr>dunder_name = ''myproject2.myclass'', dunder_package = Some ''myproject2'',
          dunder_file = ''/repo/myproject2/myclass.py''\<rparr>,
        \<lparr>sys_path = [''/repo/myproject2'', ''/repo''], stdout = []\<rparr>)"
  by code_simp

text \<open>
  C3: when a run of a script as the main module ends with exit status 0, the text on
  standard output contains \<^verbatim>\<open>myscript attributes...\<close> and, further on,
  \<^verbatim>\<open>myclass attributes...\<close>.
\<close>

theorem success_output_has_both_headers:
  assumes "dunder_name g = ''__main__''"
    and "exit_status (python (myscript v fs) g path) = 0"
  shows "\<exists>a b c. stdout_text (final (python (myscript v fs) g path)) =
           a @ ''myscript attributes...'' @ b @ ''myclass attributes...'' @ c"
proof -
  from python_myscript_success [OF assms(2)] obtain cls p where
    f: "final (python (myscript v fs) g path) = main_guard g cls \<lparr>sys_path = p, stdout = []\<rparr>"
    by blast
  let ?a = "''myscript.py called directly'' @ [CHR 0x0A]"
  let ?b = "[CHR 0x0A] @ ''Module: __main__'' @ [CHR 0x0A] @
            ''Package: '' @ py_str (dunder_package g) @ [CHR 0x0A] @
            ''File Path: '' @ dunder_file g @ [CHR 0x0A] @
            ''sys.path: '' @ py_repr_list p @ [CHR 0x0A] @ [CHR 0x0A] @
            ''MyClass initialized'' @ [CHR 0x0A]"
  let ?c = "[CHR 0x0A] @ ''Module: '' @ dunder_name cls @ [CHR 0x0A] @
            ''Package: '' @ py_str (dunder_package cls) @ [CHR 0x0A] @
            ''File Path: '' @ dunder_file cls @ [CHR 0x0A] @ [CHR 0x0A]"
  have "stdout_text (final (python (myscript v fs) g path)) =
          ?a @ ''myscript attributes...'' @ ?b @ ''myclass attributes...'' @ ?c"
    by (simp add: f stdout_text_def stdout_main_guard [OF assms(1)])
  then show ?thesis by blast
qed

theorem success_output_has_both_headers_witness:
  "dunder_name (script_globals ''/repo/myproject2/myscript.py'') = ''__main__'' \<and>
   exit_status (python (myscript Myproject2 repo)
     (script_globals ''/repo/myproject2/myscript.py'') [''/repo/myproject2'', ''/repo'']) = 0 \<and>
   (\<exists>a b c. stdout_text (final (python (myscript Myproject2 repo)
       (script_globals ''/repo/myproject2/myscript.py'') [''/repo/myproject2'', ''/repo''])) =
     a @ ''myscript attributes...'' @ b @ ''myclass attributes...'' @ c)"
proof -
  have n: "dunder_name (script_globals ''/repo/myproject2/myscript.py'') = ''__main__''"
    by (simp add: script_globals_def)
  have e: "exit_status (python (myscript Myproject2 repo)
     (script_globals ''/repo/myproject2/myscript.py'') [''/repo/myproject2'', ''/repo'']) = 0"
    by (simp add: python_myproject2 repo_myproject2_found)
  from n e success_output_has_both_headers [OF n e] show ?thesis
    by (intro conjI)
qed

subsection \<open>The two reports\<close>

text \<open>
  C4: a report is a header line, then the module name, the package name and the file path,
  each on a line of its own. The report of \<^verbatim>\<open>main\<close> has the search path as its fifth
  line; the report of \<^verbatim>\<open>MyClass.dump\<close> has no line that starts with \<^verbatim>\<open>sys.path: \<close>. Both
  end with an empty line, and \<^verbatim>\<open>main\<close> goes on to construct the class and call its report.
\<close>

theorem report_lines_in_order:
  "stdout (dump mc s) = stdout s @
     [''myclass attributes...'',
      ''Module: '' @ dunder_name (defining_module mc),
      ''Package: '' @ py_str (dunder_package (defining_module mc)),
      ''File Path: '' @ dunder_file (defining_module mc),
      []] \<and>
   filter (\<lambda>line. take 10 line = ''sys.path: '')
     (drop (length (stdout s)) (stdout (dump mc s))) = [] \<and>
   stdout (main g cls s) = stdout s @
     [''myscript attributes...'',
      ''Module: '' @ dunder_name g,
      ''Package: '' @ py_str (dunder_package g),
      ''File Path: '' @ dunder_file g,
      ''sys.path: '' @ py_repr_list (sys_path s),
      [],
      ''MyClass initialized'',
      ''myclass attributes...'',
      ''Module: '' @ dunder_name cls,
      ''Package: '' @ py_str (dunder_package cls),
      ''File Path: '' @ dunder_file cls,
      []]"
  by (simp add: stdout_dump stdout_main)

subsection \<open>The class module as a program\<close>

text \<open>
  C10: run as the main module, \<^verbatim>\<open>myclass.py\<close> prints \<^verbatim>\<open>myclass.py called directly\<close>, one
  creation notice and one class block, and the exit status is 0; standard error is empty,
  the search path is unchanged, and the header of the script block is not among the lines.
\<close>

theorem myclass_run_directly:
  assumes "dunder_name g = ''__main__''"
  shows "stdout (final (python myclass_program g path)) =
           [''myclass.py called directly'',
            ''MyClass initialized'',
            ''myclass attributes...'',
            ''Module: __main__'',
            ''Package: '' @ py_str (dunder_package g),
            ''File Path: '' @ dunder_file g,
            []] \<and>
         exit_status (python myclass_program g path) = 0 \<and>
         stderr (python myclass_program g path) = [] \<and>
         sys_path (final (python myclass_program g path)) = path \<and>
         ''myscript attributes...'' \<notin> set (stdout (final (python myclass_program g path)))"
  using assms
  by (simp add: python_def myclass_program_def myclass_module_def MyClass_init_def Let_def
      stdout_dump sys_path_dump stdout_py_print sys_path_py_print)

theorem myclass_run_directly_witness:
  "dunder_name (script_globals ''/repo/myproject2/myclass.py'') = ''__main__'' \<and>
   stdout (final (python_file repo myclass_program ''/repo/myproject2/myclass.py'' [''/usr/lib/python3''])) =
     [''myclass.py called directly'', ''MyClass initialized'', ''myclass attributes...'',
      ''Module: __main__'', ''Package: None'', ''File Path: /repo/myproject2/myclass.py'', []] \<and>
   exit_status (python_file repo myclass_program ''/repo/myproject2/myclass.py'' [''/usr/lib/python3'']) = 0"
proof -
  have n: "dunder_name (script_globals ''/repo/myproject2/myclass.py'') = ''__main__''"
    by (simp add: script_globals_def)
  from myclass_run_directly [OF n, of "default_sys_path repo ''/repo/myproject2/myclass.py'' [''/usr/lib/python3'']"]
  show ?thesis
    by (simp add: python_file_def script_globals_def)
qed

subsection \<open>When a run succeeds\<close>

lemma exit_status_myproject0:
  "(exit_status (python (myproject0_myscript fs) g path) = 0) =
     (\<exists>d\<in>set path. isfile fs (os_path_join2 d ''myclass.py''))"
  using import_myclass_found [of fs "\<lparr>sys_path = path, stdout = []\<rparr>"]
  by (auto simp: python_myproject0 split: sum.splits dest: from_myclass_import_MyClass_Inr)

lemma exit_status_myproject6:
  "(exit_status (python (myproject6_myscript fs) g path) = 0) =
     (\<exists>d\<in>set (path @ [classes_dir g]). isfile fs (os_path_join2 d ''myclass.py''))"
  using import_myclass_found [of fs "\<lparr>sys_path = path @ [classes_dir g], stdout = []\<rparr>"]
  by (auto simp: python_myproject6 split: sum.splits dest: from_myclass_import_MyClass_Inr)

lemma exit_status_myproject2:
  assumes "only_package_directory fs path"
  shows "(exit_status (python (myproject2_myscript fs) g path) = 0) =
     (\<exists>q\<in>set (portions fs path ''myproject2''). isfile fs (os_path_join2 q ''myclass.py''))"
proof -
  from only_package_directory_no_module [OF assms]
  have "\<forall>d\<in>set (sys_path \<lparr>sys_path = path, stdout = []\<rparr>).
      \<not> isfile fs (os_path_join2 d ''myproject2.py'')"
    by simp
  from import_myproject2_found [OF this] show ?thesis
    by (auto simp: python_myproject2 split: sum.splits
        dest: from_myproject2_myclass_import_MyClass_Inr)
qed

lemma exit_status_cases:
  "exit_status (python (myscript v fs) g path) = 0 \<or>
   exit_status (python (myscript v fs) g path) = 1"
  by (cases v) (simp_all add: python_myproject0 python_myproject2 python_myproject6
      split: sum.split)

lemma failure_shape:
  assumes "exit_status (python (myscript v fs) g path) \<noteq> 0"
  shows "exit_status (python (myscript v fs) g path) = 1 \<and>
         stdout (final (python (myscript v fs) g path)) = [] \<and>
         length (stderr (python (myscript v fs) g path)) = 4"
  using assms
  by (cases v) (auto simp: python_myproject0 python_myproject2 python_myproject6
      length_traceback split: sum.splits)

lemma success_lines:
  assumes "dunder_name g = ''__main__''"
    and "exit_status (python (myscript v fs) g path) = 0"
  shows "\<exists>cls :: module_globals. stdout (final (python (myscript v fs) g path)) =
     [''myscript.py called directly'',
      ''myscript attributes...'',
      ''Module: __main__'',
      ''Package: '' @ py_str (dunder_package g),
      ''File Path: '' @ dunder_file g,
      ''sys.path: '' @ py_repr_list (sys_path (final (python (myscript v fs) g path))),
      [],
      ''MyClass initialized'',
      ''myclass attributes...'',
      ''Module: '' @ dunder_name cls,
      ''Package: '' @ py_str (dunder_package cls),
      ''File Path: '' @ dunder_file cls,
      []]"
proof -
  from python_myscript_success [OF assms(2)] obtain cls p where
    f: "final (python (myscript v fs) g path) = main_guard g cls \<lparr>sys_path = p, stdout = []\<rparr>"
    by blast
  have "stdout (final (python (myscript v fs) g path)) =
     [''myscript.py called directly'',
      ''myscript attributes...'',
      ''Module: __main__'',
      ''Package: '' @ py_str (dunder_package g),
      ''File Path: '' @ dunder_file g,
      ''sys.path: '' @ py_repr_list (sys_path (final (python (myscript v fs) g path))),
      [],
      ''MyClass initialized'',
      ''myclass attributes...'',
      ''Module: '' @ dunder_name cls,
      ''Package: '' @ py_str (dunder_package cls),
      ''File Path: '' @ dunder_file cls,
      []]"
    by (simp add: f stdout_main_guard [OF assms(1)] sys_path_main_guard)
  then show ?thesis by blast
qed

subsection \<open>Runs with the default search path\<close>

text \<open>
  C2, as the code has it. A run by file name starts with the default search path: the
  directory of the resolved script, then the interpreter's own entries. Where the
  directories searched hold nothing but the repository's modules under the names imported,
  \<^verbatim>\<open>myproject0\<close> ends with exit status 0 exactly when an entry of that path holds
  \<^verbatim>\<open>myclass.py\<close>, \<^verbatim>\<open>myproject6\<close> exactly when an entry of that path or the appended
  \<^verbatim>\<open>../classes\<close> holds it, and \<^verbatim>\<open>myproject2\<close> exactly when a directory \<^verbatim>\<open>myproject2\<close> on
  that path holds it. Every run that ends with exit status 0 has printed the script block
  and then the class block.
\<close>

theorem default_run_succeeds_when_class_is_found:
  "default_sys_path fs script site = os_path_dirname (realpath fs script) # site \<and>
   (only_class_module fs (default_sys_path fs script site) \<longrightarrow>
      (exit_status (python_file fs (myscript Myproject0 fs) script site) = 0) =
        (\<exists>d\<in>set (default_sys_path fs script site).
           isfile fs (os_path_join2 d ''myclass.py''))) \<and>
   (only_class_module fs (default_sys_path fs script site @ [classes_dir (script_globals script)])
    \<longrightarrow>
      (exit_status (python_file fs (myscript Myproject6 fs) script site) = 0) =
        (\<exists>d\<in>set (default_sys_path fs script site @ [classes_dir (script_globals script)]).
           isfile fs (os_path_join2 d ''myclass.py''))) \<and>
   (only_package_directory fs (default_sys_path fs script site) \<and>
    only_class_module fs (portions fs (default_sys_path fs script site) ''myproject2'') \<longrightarrow>
      (exit_status (python_file fs (myscript Myproject2 fs) script site) = 0) =
        (\<exists>q\<in>set (portions fs (default_sys_path fs script site) ''myproject2'').
           isfile fs (os_path_join2 q ''myclass.py''))) \<and>
   (exit_status (python_file fs (myscript v fs) script site) = 0 \<longrightarrow>
      (\<exists>cls :: module_globals.
         stdout (final (python_file fs (myscript v fs) script site)) =
         [''myscript.py called directly'',
          ''myscript attributes...'',
          ''Module: __main__'',
          ''Package: None'',
          ''File Path: '' @ script,
          ''sys.path: '' @
            py_repr_list (sys_path (final (python_file fs (myscript v fs) script site))),
          [],
          ''MyClass initialized'',
          ''myclass attributes...'',
          ''Module: '' @ dunder_name cls,
          ''Package: '' @ py_str (dunder_package cls),
          ''File Path: '' @ dunder_file cls,
          []]))"
proof (intro conjI impI)
  show "default_sys_path fs script site = os_path_dirname (realpath fs script) # site"
    by (simp add: default_sys_path_def)
  show "(exit_status (python_file fs (myscript Myproject0 fs) script site) = 0) =
        (\<exists>d\<in>set (default_sys_path fs script site).
           isfile fs (os_path_join2 d ''myclass.py''))"
    by (simp only: python_file_def myscript.simps exit_status_myproject0)
  show "(exit_status (python_file fs (myscript Myproject6 fs) script site) = 0) =
        (\<exists>d\<in>set (default_sys_path fs script site @ [classes_dir (script_globals script)]).
           isfile fs (os_path_join2 d ''myclass.py''))"
    by (simp only: python_file_def myscript.simps exit_status_myproject6)
next
  assume "only_package_directory fs (default_sys_path fs script site) \<and>
    only_class_module fs (portions fs (default_sys_path fs script site) ''myproject2'')"
  then have "only_package_directory fs (default_sys_path fs script site)" ..
  then show "(exit_status (python_file fs (myscript Myproject2 fs) script site) = 0) =
        (\<exists>q\<in>set (portions fs (default_sys_path fs script site) ''myproject2'').
           isfile fs (os_path_join2 q ''myclass.py''))"
    by (simp only: python_file_def myscript.simps exit_status_myproject2)
next
  assume e: "exit_status (python_file fs (myscript v fs) script site) = 0"
  have n: "dunder_name (script_globals script) = ''__main__''"
    by (simp add: script_globals_def)
  from e have "exit_status (python (myscript v fs) (script_globals script)
      (default_sys_path fs script site)) = 0"
    by (simp only: python_file_def)
  from success_lines [OF n this] obtain cls :: module_globals where
    "stdout (final (python (myscript v fs) (script_globals script)
        (default_sys_path fs script site))) =
     [''myscript.py called directly'',
      ''myscript attributes...'',
      ''Module: __main__'',
      ''Package: '' @ py_str (dunder_package (script_globals script)),
      ''File Path: '' @ dunder_file (script_globals script),
      ''sys.path: '' @ py_repr_list (sys_path (final (python (myscript v fs)
          (script_globals script) (default_sys_path fs script site)))),
      [],
      ''MyClass initialized'',
      ''myclass attributes...'',
      ''Module: '' @ dunder_name cls,
      ''Package: '' @ py_str (dunder_package cls),
      ''File Path: '' @ dunder_file cls,
      []]" by blast
  then have "stdout (final (python_file fs (myscript v fs) script site)) =
         [''myscript.py called directly'',
          ''myscript attributes...'',
          ''Module: __main__'',
          ''Package: None'',
          ''File Path: '' @ script,
          ''sys.path: '' @
            py_repr_list (sys_path (final (python_file fs (myscript v fs) script site))),
          [],
          ''MyClass initialized'',
          ''myclass attributes...'',
          ''Module: '' @ dunder_name cls,
          ''Package: '' @ py_str (dunder_package cls),
          ''File Path: '' @ dunder_file cls,
          []]"
    by (simp add: python_file_def script_globals_def)
  then show "\<exists>cls :: module_globals.
         stdout (final (python_file fs (myscript v fs) script site)) =
         [''myscript.py called directly'',
          ''myscript attributes...'',
          ''Module: __main__'',
          ''Package: None'',
          ''File Path: '' @ script,
          ''sys.path: '' @
            py_repr_list (sys_path (final (python_file fs (myscript v fs) script site))),
          [],
          ''MyClass initialized'',
          ''myclass attributes...'',
          ''Module: '' @ dunder_name cls,
          ''Package: '' @ py_str (dunder_package cls),
          ''File Path: '' @ dunder_file cls,
          []]"
    by blast
qed

lemma checkout_default_paths:
  "default_sys_path checkout ''/repo/myproject0/myscript.py'' [''/usr/lib/python3''] =
     [''/repo/myproject0'', ''/usr/lib/python3'']"
  "default_sys_path checkout ''/repo/myproject2/myscript.py'' [''/usr/lib/python3''] =
     [''/repo/myproject2'', ''/usr/lib/python3'']"
  "default_sys_path checkout ''/repo/myproject2/myscript.py'' [''/repo''] =
     [''/repo/myproject2'', ''/repo'']"
  "default_sys_path checkout ''/repo/myproject6/scripts/myscript.py'' [''/usr/lib/python3''] =
     [''/repo/myproject6/scripts'', ''/usr/lib/python3'']"
  by code_simp+

lemma classes_dir_myproject6:
  "classes_dir (script_globals ''/repo/myproject6/scripts/myscript.py'') =
     ''/repo/myproject6/scripts/../classes''"
  by (simp add: os_path_dirname_def classes_dir_def script_globals_def
      os_path_join_def os_path_join2_def)

theorem default_run_succeeds_when_class_is_found_witness:
  "isfile checkout ''/repo/myproject0/myclass.py'' \<and>
   exit_status (python_file checkout (myscript Myproject0 checkout)
     ''/repo/myproject0/myscript.py'' [''/usr/lib/python3'']) = 0 \<and>
   (\<exists>cls :: module_globals.
      stdout (final (python_file checkout (myscript Myproject0 checkout)
        ''/repo/myproject0/myscript.py'' [''/usr/lib/python3''])) =
      [''myscript.py called directly'',
       ''myscript attributes...'',
       ''Module: __main__'',
       ''Package: None'',
       ''File Path: '' @ ''/repo/myproject0/myscript.py'',
       ''sys.path: '' @
         py_repr_list (sys_path (final (python_file checkout (myscript Myproject0 checkout)
           ''/repo/myproject0/myscript.py'' [''/usr/lib/python3'']))),
       [],
       ''MyClass initialized'',
       ''myclass attributes...'',
       ''Module: '' @ dunder_name cls,
       ''Package: '' @ py_str (dunder_package cls),
       ''File Path: '' @ dunder_file cls,
       []]) \<and>
   isfile checkout ''/repo/myproject6/scripts/../classes/myclass.py'' \<and>
   exit_status (python_file checkout (myscript Myproject6 checkout)
     ''/repo/myproject6/scripts/myscript.py'' [''/usr/lib/python3'']) = 0 \<and>
   portions checkout [''/repo/myproject2'', ''/repo''] ''myproject2'' = [''/repo/myproject2''] \<and>
   isfile checkout ''/repo/myproject2/myclass.py'' \<and>
   exit_status (python_file checkout (myscript Myproject2 checkout)
     ''/repo/myproject2/myscript.py'' [''/repo'']) = 0 \<and>
   portions checkout [''/repo/myproject2'', ''/usr/lib/python3''] ''myproject2'' = [] \<and>
   exit_status (python_file checkout (myscript Myproject2 checkout)
     ''/repo/myproject2/myscript.py'' [''/usr/lib/python3'']) \<noteq> 0"
proof -
  have f: "isfile checkout ''/repo/myproject0/myclass.py''"
    "isfile checkout ''/repo/myproject6/scripts/../classes/myclass.py''"
    "isfile checkout ''/repo/myproject2/myclass.py''"
    by code_simp+
  have p: "portions checkout [''/repo/myproject2'', ''/repo''] ''myproject2'' =
      [''/repo/myproject2'']"
    "portions checkout [''/repo/myproject2'', ''/usr/lib/python3''] ''myproject2'' = []"
    by code_simp+
  have d0: "only_class_module checkout [''/repo/myproject0'', ''/usr/lib/python3'']"
    by code_simp
  have x0: "\<exists>d\<in>set [''/repo/myproject0'', ''/usr/lib/python3''].
      isfile checkout (os_path_join2 d ''myclass.py'')"
    by code_simp
  have d6: "only_class_module checkout ([''/repo/myproject6/scripts'', ''/usr/lib/python3''] @
      [''/repo/myproject6/scripts/../classes''])"
    by code_simp
  have x6: "\<exists>d\<in>set ([''/repo/myproject6/scripts'', ''/usr/lib/python3''] @
      [''/repo/myproject6/scripts/../classes'']).
      isfile checkout (os_path_join2 d ''myclass.py'')"
    by code_simp
  have d2: "only_package_directory checkout [''/repo/myproject2'', ''/repo'']"
    "only_class_module checkout [''/repo/myproject2'']"
    by code_simp+
  have x2: "\<exists>q\<in>set [''/repo/myproject2'']. isfile checkout (os_path_join2 q ''myclass.py'')"
    by code_simp
  have d2': "only_package_directory checkout [''/repo/myproject2'', ''/usr/lib/python3'']"
    "only_class_module checkout []"
    by code_simp+
  note t = default_run_succeeds_when_class_is_found
  have e0: "exit_status (python_file checkout (myscript Myproject0 checkout)
      ''/repo/myproject0/myscript.py'' [''/usr/lib/python3'']) = 0"
    using t [of checkout "''/repo/myproject0/myscript.py''" "[''/usr/lib/python3'']",
        THEN conjunct2, THEN conjunct1] d0 x0
    by (simp only: checkout_default_paths simp_thms)
  have e6: "exit_status (python_file checkout (myscript Myproject6 checkout)
      ''/repo/myproject6/scripts/myscript.py'' [''/usr/lib/python3'']) = 0"
    using t [of checkout "''/repo/myproject6/scripts/myscript.py''" "[''/usr/lib/python3'']",
        THEN conjunct2, THEN conjunct2, THEN conjunct1] d6 x6
    by (simp only: checkout_default_paths classes_dir_myproject6 simp_thms)
  have e2: "exit_status (python_file checkout (myscript Myproject2 checkout)
      ''/repo/myproject2/myscript.py'' [''/repo'']) = 0"
    using t [of checkout "''/repo/myproject2/myscript.py''" "[''/repo'']",
        THEN conjunct2, THEN conjunct2, THEN conjunct2, THEN conjunct1] d2 x2
    by (simp only: checkout_default_paths p simp_thms)
  have n2: "exit_status (python_file checkout (myscript Myproject2 checkout)
      ''/repo/myproject2/myscript.py'' [''/usr/lib/python3'']) \<noteq> 0"
    using t [of checkout "''/repo/myproject2/myscript.py''" "[''/usr/lib/python3'']",
        THEN conjunct2, THEN conjunct2, THEN conjunct2, THEN conjunct1] d2'
    by (simp only: checkout_default_paths p simp_thms) simp
  note l0 = t [of checkout "''/repo/myproject0/myscript.py''" "[''/usr/lib/python3'']"
        Myproject0, THEN conjunct2, THEN conjunct2, THEN conjunct2, THEN conjunct2,
        THEN mp, OF e0]
  from f p e0 e6 e2 n2 l0 show ?thesis
    by (intro conjI)
qed

lemma checkout_myproject2_not_found:
  "from_myproject2_myclass_import_MyClass checkout
     \<lparr>sys_path = [''/repo/myproject2'', ''/usr/lib/python3''], stdout = []\<rparr> =
   Inl (ModuleNotFoundError ''myproject2'' None)"
  by code_simp

text \<open>
  The run that refutes C2 as stated: in the full checkout, \<^verbatim>\<open>python
  /repo/myproject2/myscript.py\<close> with the default search path fails, because the first
  entry of the search path is \<^verbatim>\<open>/repo/myproject2\<close> itself, which holds no directory
  \<^verbatim>\<open>myproject2\<close>.
\<close>

theorem default_run_myproject2_counterexample:
  "exit_status (python_file checkout (myscript Myproject2 checkout)
     ''/repo/myproject2/myscript.py'' [''/usr/lib/python3'']) \<noteq> 0 \<and>
   stdout (final (python_file checkout (myscript Myproject2 checkout)
     ''/repo/myproject2/myscript.py'' [''/usr/lib/python3''])) = []"
  by (simp add: python_file_def checkout_default_paths python_myproject2
      checkout_myproject2_not_found)

subsection \<open>The package line\<close>

lemma checkout_myproject0_found:
  "from_myclass_import_MyClass checkout
     \<lparr>sys_path = [''/repo/myproject0'', ''/usr/lib/python3''], stdout = []\<rparr> =
     Inr (\<lparr>dunder_name = ''myclass'', dunder_package = Some [],
           dunder_file = ''/repo/myproject0/myclass.py''\<rparr>,
          \<lparr>sys_path = [''/repo/myproject0'', ''/usr/lib/python3''], stdout = []\<rparr>)"
  by code_simp

text \<open>
  C5, as the code has it. A file run as the program has no package and its
  \<^verbatim>\<open>__package__\<close> is \<^verbatim>\<open>None\<close>: the line reads \<^verbatim>\<open>Package: None\<close>, in the report of
  \<^verbatim>\<open>main\<close> and in the report of the class module run directly. A module imported at top
  level, as \<^verbatim>\<open>myclass\<close> is by \<^verbatim>\<open>from myclass import MyClass\<close>, has the empty string as
  its \<^verbatim>\<open>__package__\<close>: the line reads \<^verbatim>\<open>Package: \<close> with nothing after it.
\<close>

theorem package_line:
  "dunder_package (script_globals script) = None \<and>
   stdout (main (script_globals script) cls s) ! (length (stdout s) + 2) = ''Package: None'' \<and>
   stdout (myclass_module (script_globals script) s) ! (length (stdout s) + 4) =
     ''Package: None'' \<and>
   (from_myclass_import_MyClass fs s = Inr (c, s') \<longrightarrow>
      dunder_package c = Some [] \<and>
      stdout (dump (fst (MyClass_init c t)) (snd (MyClass_init c t))) ! (length (stdout t) + 3) =
        ''Package: '')"
proof (intro conjI impI)
  show "dunder_package (script_globals script) = None"
    by (simp add: script_globals_def)
  show "stdout (main (script_globals script) cls s) ! (length (stdout s) + 2) = ''Package: None''"
    by (simp add: stdout_main script_globals_def nth_append)
  show "stdout (myclass_module (script_globals script) s) ! (length (stdout s) + 4) =
     ''Package: None''"
    by (simp add: myclass_module_def script_globals_def MyClass_init_def Let_def stdout_dump
        stdout_py_print nth_append)
next
  assume i: "from_myclass_import_MyClass fs s = Inr (c, s')"
  then show p: "dunder_package c = Some []"
    by (simp add: from_myclass_import_MyClass_Inr)
  show "stdout (dump (fst (MyClass_init c t)) (snd (MyClass_init c t))) ! (length (stdout t) + 3) =
        ''Package: ''"
    by (simp add: MyClass_init_def stdout_dump stdout_py_print p nth_append)
qed

theorem package_line_witness:
  "from_myclass_import_MyClass checkout
     \<lparr>sys_path = [''/repo/myproject0'', ''/usr/lib/python3''], stdout = []\<rparr> =
     Inr (\<lparr>dunder_name = ''myclass'', dunder_package = Some [],
           dunder_file = ''/repo/myproject0/myclass.py''\<rparr>,
          \<lparr>sys_path = [''/repo/myproject0'', ''/usr/lib/python3''], stdout = []\<rparr>) \<and>
   stdout (dump
     (fst (MyClass_init \<lparr>dunder_name = ''myclass'', dunder_package = Some [],
              dunder_file = ''/repo/myproject0/myclass.py''\<rparr>
            \<lparr>sys_path = [''/repo/myproject0'', ''/usr/lib/python3''], stdout = []\<rparr>))
     (snd (MyClass_init \<lparr>dunder_name = ''myclass'', dunder_package = Some [],
              dunder_file = ''/repo/myproject0/myclass.py''\<rparr>
            \<lparr>sys_path = [''/repo/myproject0'', ''/usr/lib/python3''], stdout = []\<rparr>))) ! 3 =
     ''Package: ''"
proof -
  have i: "from_myclass_import_MyClass checkout
     \<lparr>sys_path = [''/repo/myproject0'', ''/usr/lib/python3''], stdout = []\<rparr> =
     Inr (\<lparr>dunder_name = ''myclass'', dunder_package = Some [],
           dunder_file = ''/repo/myproject0/myclass.py''\<rparr>,
          \<lparr>sys_path = [''/repo/myproject0'', ''/usr/lib/python3''], stdout = []\<rparr>)"
    by (rule checkout_myproject0_found)
  from package_line [of _ _ "\<lparr>sys_path = [''/repo/myproject0'', ''/usr/lib/python3''], stdout = []\<rparr>"
      checkout _ _ "\<lparr>sys_path = [''/repo/myproject0'', ''/usr/lib/python3''], stdout = []\<rparr>",
      THEN conjunct2, THEN conjunct2, THEN conjunct2, THEN mp, OF i, THEN conjunct2]
  have "stdout (dump
     (fst (MyClass_init \<lparr>dunder_name = ''myclass'', dunder_package = Some [],
              dunder_file = ''/repo/myproject0/myclass.py''\<rparr>
            \<lparr>sys_path = [''/repo/myproject0'', ''/usr/lib/python3''], stdout = []\<rparr>))
     (snd (MyClass_init \<lparr>dunder_name = ''myclass'', dunder_package = Some [],
              dunder_file = ''/repo/myproject0/myclass.py''\<rparr>
            \<lparr>sys_path = [''/repo/myproject0'', ''/usr/lib/python3''], stdout = []\<rparr>))) ! 3 =
     ''Package: ''"
    by simp
  with i show ?thesis by (intro conjI)
qed

text \<open>
  The run that refutes C5 as stated: \<^verbatim>\<open>python /repo/myproject0/myscript.py\<close> runs the
  script directly, with no package, and the fourth line of its output is
  \<^verbatim>\<open>Package: None\<close>, not an empty name.
\<close>

theorem package_line_counterexample:
  "dunder_package (script_globals ''/repo/myproject0/myscript.py'') = None \<and>
   exit_status (python_file checkout (myscript Myproject0 checkout) ''/repo/myproject0/myscript.py''
     [''/usr/lib/python3'']) = 0 \<and>
   stdout (final (python_file checkout (myscript Myproject0 checkout) ''/repo/myproject0/myscript.py''
     [''/usr/lib/python3''])) ! 3 = ''Package: None'' \<and>
   stdout (final (python_file checkout (myscript Myproject0 checkout) ''/repo/myproject0/myscript.py''
     [''/usr/lib/python3''])) ! 3 \<noteq> ''Package: ''"
  by (simp add: python_file_def checkout_default_paths python_myproject0
      checkout_myproject0_found script_globals_def stdout_main_guard)

subsection \<open>Every run ends\<close>

lemma success_shape:
  assumes "dunder_name g = ''__main__''"
    and "exit_status (python (myscript v fs) g path) = 0"
  shows "exit_status (python (myscript v fs) g path) = 0 \<and>
         length (stdout (final (python (myscript v fs) g path))) = 13 \<and>
         stderr (python (myscript v fs) g path) = []"
proof -
  from success_lines [OF assms] obtain cls :: module_globals where
    "stdout (final (python (myscript v fs) g path)) =
     [''myscript.py called directly'',
      ''myscript attributes...'',
      ''Module: __main__'',
      ''Package: '' @ py_str (dunder_package g),
      ''File Path: '' @ dunder_file g,
      ''sys.path: '' @ py_repr_list (sys_path (final (python (myscript v fs) g path))),
      [],
      ''MyClass initialized'',
      ''myclass attributes...'',
      ''Module: '' @ dunder_name cls,
      ''Package: '' @ py_str (dunder_package cls),
      ''File Path: '' @ dunder_file cls,
      []]" by blast
  then have "length (stdout (final (python (myscript v fs) g path))) = 13"
    by simp
  with assms(2) python_myscript_success [OF assms(2)] show ?thesis
    by blast
qed

text \<open>
  C8, as the code has it. Every definition above is a total function, so every run of a
  script as the main module ends, and how it ends is decided by the import. Where the
  directories searched hold nothing but the repository's modules under the names imported:
  when the class module is found, thirteen lines are printed, standard error stays empty
  and the exit status is 0; when it is not found, nothing is printed, the four-line
  traceback goes to standard error and the exit status is 1.
\<close>

theorem run_is_finite:
  assumes "dunder_name g = ''__main__''"
  shows
   "(only_class_module fs path \<longrightarrow>
      ((\<exists>d\<in>set path. isfile fs (os_path_join2 d ''myclass.py'')) \<longrightarrow>
         exit_status (python (myscript Myproject0 fs) g path) = 0 \<and>
         length (stdout (final (python (myscript Myproject0 fs) g path))) = 13 \<and>
         stderr (python (myscript Myproject0 fs) g path) = []) \<and>
      ((\<forall>d\<in>set path. \<not> isfile fs (os_path_join2 d ''myclass.py'')) \<longrightarrow>
         exit_status (python (myscript Myproject0 fs) g path) = 1 \<and>
         stdout (final (python (myscript Myproject0 fs) g path)) = [] \<and>
         length (stderr (python (myscript Myproject0 fs) g path)) = 4)) \<and>
    (only_package_directory fs path \<and>
     only_class_module fs (portions fs path ''myproject2'') \<longrightarrow>
      ((\<exists>q\<in>set (portions fs path ''myproject2''). isfile fs (os_path_join2 q ''myclass.py''))
       \<longrightarrow>
         exit_status (python (myscript Myproject2 fs) g path) = 0 \<and>
         length (stdout (final (python (myscript Myproject2 fs) g path))) = 13 \<and>
         stderr (python (myscript Myproject2 fs) g path) = []) \<and>
      ((\<forall>q\<in>set (portions fs path ''myproject2''). \<not> isfile fs (os_path_join2 q ''myclass.py''))
       \<longrightarrow>
         exit_status (python (myscript Myproject2 fs) g path) = 1 \<and>
         stdout (final (python (myscript Myproject2 fs) g path)) = [] \<and>
         length (stderr (python (myscript Myproject2 fs) g path)) = 4)) \<and>
    (only_class_module fs (path @ [classes_dir g]) \<longrightarrow>
      ((\<exists>d\<in>set (path @ [classes_dir g]). isfile fs (os_path_join2 d ''myclass.py'')) \<longrightarrow>
         exit_status (python (myscript Myproject6 fs) g path) = 0 \<and>
         length (stdout (final (python (myscript Myproject6 fs) g path))) = 13 \<and>
         stderr (python (myscript Myproject6 fs) g path) = []) \<and>
      ((\<forall>d\<in>set (path @ [classes_dir g]). \<not> isfile fs (os_path_join2 d ''myclass.py'')) \<longrightarrow>
         exit_status (python (myscript Myproject6 fs) g path) = 1 \<and>
         stdout (final (python (myscript Myproject6 fs) g path)) = [] \<and>
         length (stderr (python (myscript Myproject6 fs) g path)) = 4))"
proof (intro conjI impI)
  assume "\<exists>d\<in>set path. isfile fs (os_path_join2 d ''myclass.py'')"
  then have "exit_status (python (myscript Myproject0 fs) g path) = 0"
    by (simp add: exit_status_myproject0)
  from success_shape [OF assms this]
  show "exit_status (python (myscript Myproject0 fs) g path) = 0"
    and "length (stdout (final (python (myscript Myproject0 fs) g path))) = 13"
    and "stderr (python (myscript Myproject0 fs) g path) = []"
    by simp_all
next
  assume "\<forall>d\<in>set path. \<not> isfile fs (os_path_join2 d ''myclass.py'')"
  then have "exit_status (python (myscript Myproject0 fs) g path) \<noteq> 0"
    by (simp add: exit_status_myproject0)
  from failure_shape [OF this]
  show "exit_status (python (myscript Myproject0 fs) g path) = 1"
    and "stdout (final (python (myscript Myproject0 fs) g path)) = []"
    and "length (stderr (python (myscript Myproject0 fs) g path)) = 4"
    by simp_all
next
  assume d: "only_package_directory fs path \<and>
     only_class_module fs (portions fs path ''myproject2'')"
    and "\<exists>q\<in>set (portions fs path ''myproject2''). isfile fs (os_path_join2 q ''myclass.py'')"
  then have "exit_status (python (myscript Myproject2 fs) g path) = 0"
    by (simp add: exit_status_myproject2)
  from success_shape [OF assms this]
  show "exit_status (python (myscript Myproject2 fs) g path) = 0"
    and "length (stdout (final (python (myscript Myproject2 fs) g path))) = 13"
    and "stderr (python (myscript Myproject2 fs) g path) = []"
    by simp_all
next
  assume d: "only_package_directory fs path \<and>
     only_class_module fs (portions fs path ''myproject2'')"
    and "\<forall>q\<in>set (portions fs path ''myproject2''). \<not> isfile fs (os_path_join2 q ''myclass.py'')"
  then have "exit_status (python (myscript Myproject2 fs) g path) \<noteq> 0"
    by (simp add: exit_status_myproject2)
  from failure_shape [OF this]
  show "exit_status (python (myscript Myproject2 fs) g path) = 1"
    and "stdout (final (python (myscript Myproject2 fs) g path)) = []"
    and "length (stderr (python (myscript Myproject2 fs) g path)) = 4"
    by simp_all
next
  assume "\<exists>d\<in>set (path @ [classes_dir g]). isfile fs (os_path_join2 d ''myclass.py'')"
  then have "exit_status (python (myscript Myproject6 fs) g path) = 0"
    by (simp only: myscript.simps exit_status_myproject6)
  from success_shape [OF assms this]
  show "exit_status (python (myscript Myproject6 fs) g path) = 0"
    and "length (stdout (final (python (myscript Myproject6 fs) g path))) = 13"
    and "stderr (python (myscript Myproject6 fs) g path) = []"
    by simp_all
next
  assume "\<forall>d\<in>set (path @ [classes_dir g]). \<not> isfile fs (os_path_join2 d ''myclass.py'')"
  then have "exit_status (python (myscript Myproject6 fs) g path) \<noteq> 0"
    by (simp only: myscript.simps exit_status_myproject6) simp
  from failure_shape [OF this]
  show "exit_status (python (myscript Myproject6 fs) g path) = 1"
    and "stdout (final (python (myscript Myproject6 fs) g path)) = []"
    and "length (stderr (python (myscript Myproject6 fs) g path)) = 4"
    by simp_all
qed

lemma repo_myproject0_not_found:
  "\<forall>d\<in>set [''/repo/myproject0'', ''/usr/lib/python3''].
      \<not> isfile repo (os_path_join2 d ''myclass.py'')"
  by code_simp

theorem run_is_finite_witness:
  "dunder_name (script_globals ''/repo/myproject0/myscript.py'') = ''__main__'' \<and>
   isfile checkout ''/repo/myproject0/myclass.py'' \<and>
   exit_status (python (myscript Myproject0 checkout)
     (script_globals ''/repo/myproject0/myscript.py'')
     [''/repo/myproject0'', ''/usr/lib/python3'']) = 0 \<and>
   length (stdout (final (python (myscript Myproject0 checkout)
     (script_globals ''/repo/myproject0/myscript.py'')
     [''/repo/myproject0'', ''/usr/lib/python3'']))) = 13 \<and>
   \<not> isfile repo ''/repo/myproject0/myclass.py'' \<and>
   exit_status (python (myscript Myproject0 repo)
     (script_globals ''/repo/myproject0/myscript.py'')
     [''/repo/myproject0'', ''/usr/lib/python3'']) = 1 \<and>
   stdout (final (python (myscript Myproject0 repo)
     (script_globals ''/repo/myproject0/myscript.py'')
     [''/repo/myproject0'', ''/usr/lib/python3''])) = [] \<and>
   length (stderr (python (myscript Myproject0 repo)
     (script_globals ''/repo/myproject0/myscript.py'')
     [''/repo/myproject0'', ''/usr/lib/python3''])) = 4"
proof -
  have n: "dunder_name (script_globals ''/repo/myproject0/myscript.py'') = ''__main__''"
    by (simp add: script_globals_def)
  have f: "isfile checkout ''/repo/myproject0/myclass.py''"
    "\<not> isfile repo ''/repo/myproject0/myclass.py''"
    by code_simp+
  have dc: "only_class_module checkout [''/repo/myproject0'', ''/usr/lib/python3'']"
    by code_simp
  have xc: "\<exists>d\<in>set [''/repo/myproject0'', ''/usr/lib/python3''].
      isfile checkout (os_path_join2 d ''myclass.py'')"
    by code_simp
  have dr: "only_class_module repo [''/repo/myproject0'', ''/usr/lib/python3'']"
    by code_simp
  note tc = run_is_finite [OF n, of checkout "[''/repo/myproject0'', ''/usr/lib/python3'']",
      THEN conjunct1, THEN mp, OF dc, THEN conjunct1, THEN mp, OF xc]
  note tr = run_is_finite [OF n, of repo "[''/repo/myproject0'', ''/usr/lib/python3'']",
      THEN conjunct1, THEN mp, OF dr, THEN conjunct2, THEN mp, OF repo_myproject0_not_found]
  from n f tc tr show ?thesis
    by simp
qed

lemma repo_myproject6_not_found:
  "from_myclass_import_MyClass repo
     \<lparr>sys_path = [''/repo/myproject6/scripts'', ''/usr/lib/python3'',
                   ''/repo/myproject6/scripts/../classes''], stdout = []\<rparr> =
   Inl (ModuleNotFoundError ''myclass'' None)"
  by code_simp

lemma repo_default_path_myproject6:
  "default_sys_path repo ''/repo/myproject6/scripts/myscript.py'' [''/usr/lib/python3''] =
     [''/repo/myproject6/scripts'', ''/usr/lib/python3'']"
  by code_simp

text \<open>
  The run that refutes C8 as stated: where \<^verbatim>\<open>../classes/myclass.py\<close> is missing, as it is
  among the four files of the repository, \<^verbatim>\<open>python /repo/myproject6/scripts/myscript.py\<close>
  ends with an uncaught exception and exit status 1, not with a normal exit.
\<close>

theorem abnormal_exit_counterexample:
  "exit_status (python_file repo (myscript Myproject6 repo)
     ''/repo/myproject6/scripts/myscript.py'' [''/usr/lib/python3'']) = 1 \<and>
   stderr (python_file repo (myscript Myproject6 repo)
     ''/repo/myproject6/scripts/myscript.py'' [''/usr/lib/python3'']) \<noteq> []"
  by (simp add: python_file_def repo_default_path_myproject6 classes_dir_myproject6
      python_myproject6 repo_myproject6_not_found traceback_def)

subsection \<open>The search path\<close>







end
